theory Spec2Isabelle
  imports Complex_Main "HOL-Library.Word"
begin

unbundle bit_operations_syntax

section \<open>Common data: bytes, exceptions\<close>

text \<open>
  The module \<^verbatim>\<open>mu/interface.py\<close> is the PyQt5 user interface of the Mu editor. Its
  classes are modelled as records of the widget state the code reads and writes; a
  method becomes a function from the old state to the new one. A Python exception is
  a value of \<open>exn\<close>, and a method that can raise returns \<open>exn + 'a\<close> (\<open>Inl\<close> the
  exception that propagates to the caller).
\<close>

type_synonym byte = "8 word"

datatype exn =
    IOError string
  | RuntimeError string
  | AttributeError
  | TypeError
  | RecursionError


section \<open>The toolkit's plain-text document and its cursors\<close>


record text_cursor =
  position :: nat
  anchor :: nat





record serial_port =
  requested_port :: string
  is_open :: bool
  baud_rate :: "nat option"
  ready_read_connected :: bool
  written :: "byte list list"

datatype style_sheet = DAY_STYLE | NIGHT_STYLE

record repl_pane =
  plain_text :: string
  cursor :: text_cursor
  cursor_visible :: bool
  accept_rich_text :: bool
  read_only :: bool
  object_name :: string
  serial :: serial_port
  style :: "style_sheet option"









section \<open>REPLPane.process_bytes\<close>






text \<open>A cursor without a selection at a position.\<close>

definition cursor_at :: "nat \<Rightarrow> text_cursor" where
  "cursor_at p = \<lparr>position = p, anchor = p\<rparr>"















section \<open>REPLPane: construction\<close>

text \<open>
  The serial port is a device outside the program. Whether the operating system lets
  the port of a given name be opened for reading and writing is the parameter
  \<open>device\<close>; the record keeps what the program did to the port: \<open>requested_port\<close> is
  the name handed to \<^verbatim>\<open>setPortName\<close> (from which the toolkit finds the device),
  \<open>baud_rate\<close> is \<open>None\<close> until \<^verbatim>\<open>setBaudRate\<close> is called, \<open>written\<close> lists the
  arguments of the \<^verbatim>\<open>write\<close> calls in order.
\<close>

definition QSerialPort_new :: serial_port where
  "QSerialPort_new =
     \<lparr>requested_port = [], is_open = False, baud_rate = None, ready_read_connected = False,
      written = []\<rparr>"

definition setPortName :: "string \<Rightarrow> serial_port \<Rightarrow> serial_port" where
  "setPortName port s = s\<lparr>requested_port := port\<rparr>"

definition serial_open :: "(string \<Rightarrow> bool) \<Rightarrow> serial_port \<Rightarrow> bool \<times> serial_port" where
  "serial_open device s =
     (if device (requested_port s) then (True, s\<lparr>is_open := True\<rparr>) else (False, s))"

definition setBaudRate :: "nat \<Rightarrow> serial_port \<Rightarrow> serial_port" where
  "setBaudRate n s = s\<lparr>baud_rate := Some n\<rparr>"

definition serial_write :: "byte list \<Rightarrow> serial_port \<Rightarrow> serial_port" where
  "serial_write msg s = s\<lparr>written := written s @ [msg]\<rparr>"

definition setText :: "string \<Rightarrow> repl_pane \<Rightarrow> repl_pane" where
  "setText t self = self\<lparr>plain_text := t, cursor := cursor_at 0\<rparr>"

definition clear :: "repl_pane \<Rightarrow> repl_pane" where
  "clear self = setText [] self"

definition set_theme :: "string \<Rightarrow> repl_pane \<Rightarrow> repl_pane" where
  "set_theme theme self =
     (if theme = ''day'' then self\<lparr>style := Some DAY_STYLE\<rparr>
      else self\<lparr>style := Some NIGHT_STYLE\<rparr>)"

text \<open>
  \<^verbatim>\<open>REPLPane.__init__(port, theme)\<close>. The text that the widget holds when the
  constructor reaches \<^verbatim>\<open>self.clear()\<close> is the parameter \<open>content\<close>. When the
  \<^verbatim>\<open>IOError\<close> is raised the result carries the pane as it stands at the \<^verbatim>\<open>raise\<close>,
  so that what was done to the port before can be read off.
\<close>

definition REPLPane_init ::
    "(string \<Rightarrow> bool) \<Rightarrow> string \<Rightarrow> string \<Rightarrow> string \<Rightarrow> (exn \<times> repl_pane) + repl_pane" where
  "REPLPane_init device content port theme =
     (let self = \<lparr>plain_text = content, cursor = cursor_at 0, cursor_visible = True,
                  accept_rich_text = False, read_only = False, object_name = ''replpane'',
                  serial = setPortName port QSerialPort_new, style = None\<rparr>;
          (opened, ser) = serial_open device (serial self);
          self = self\<lparr>serial := ser\<rparr>
      in if opened then
           (let self = self\<lparr>serial := setBaudRate 115200 (serial self)\<rparr>;
                self = self\<lparr>serial := (serial self)\<lparr>ready_read_connected := True\<rparr>\<rparr>;
                self = clear self;
                self = self\<lparr>serial := serial_write [0x03] (serial self)\<rparr>
            in Inr (set_theme theme self))
         else Inl (IOError (''Cannot connect to device on port '' @ port), self))"

text \<open>
  C3. Whenever the port opens, the constructor returns a pane whose port is open with
  the baud rate set to 115200, whose text is empty whatever the widget held before,
  and to whose port exactly one message was written, the single byte 0x03.
\<close>

theorem REPLPane_init_opened:
  assumes "device port"
  shows "\<exists>self. REPLPane_init device content port theme = Inr self
           \<and> is_open (serial self)
           \<and> baud_rate (serial self) = Some 115200
           \<and> plain_text self = []
           \<and> written (serial self) = [[0x03]]"
  using assms
  by (simp add: REPLPane_init_def serial_open_def setPortName_def QSerialPort_new_def
      setBaudRate_def clear_def setText_def serial_write_def set_theme_def Let_def)

text \<open>A widget that holds the text \<open>stale\<close> when it is cleared ends up empty.\<close>

theorem REPLPane_init_opened_witness:
  "(\<lambda>p. p = ''COM3'') ''COM3''
   \<and> (\<exists>self. REPLPane_init (\<lambda>p. p = ''COM3'') ''stale'' ''COM3'' ''day'' = Inr self
           \<and> is_open (serial self)
           \<and> baud_rate (serial self) = Some 115200
           \<and> plain_text self = []
           \<and> written (serial self) = [[0x03]])"
  using REPLPane_init_opened [of "\<lambda>p. p = ''COM3''" "''COM3''" "''stale''" "''day''"]
  by simp

text \<open>
  C4. The constructor raises exactly when the port fails to open, and what it raises
  is an \<^verbatim>\<open>IOError\<close>. At the \<^verbatim>\<open>raise\<close> the port is closed, no baud rate has been set
  and nothing has been written; nothing after the \<^verbatim>\<open>raise\<close> runs (no theme is set),
  the exception is the constructor's result.
\<close>

theorem REPLPane_init_raises:
  "((\<exists>e s. REPLPane_init device content port theme = Inl (e, s)) \<longleftrightarrow> \<not> device port)
   \<and> (\<not> device port \<longrightarrow>
        (\<exists>s. REPLPane_init device content port theme =
               Inl (IOError (''Cannot connect to device on port '' @ port), s)
             \<and> \<not> is_open (serial s)
             \<and> baud_rate (serial s) = None
             \<and> written (serial s) = []
             \<and> style s = None))"
  by (simp add: REPLPane_init_def serial_open_def setPortName_def QSerialPort_new_def Let_def)

theorem REPLPane_init_raises_witness:
  "\<exists>s. REPLPane_init (\<lambda>p. False) [] ''COM9'' ''day'' =
          Inl (IOError ''Cannot connect to device on port COM9'', s)
        \<and> \<not> is_open (serial s)
        \<and> baud_rate (serial s) = None
        \<and> written (serial s) = []
        \<and> style s = None"
  using REPLPane_init_raises [of "\<lambda>p. False" "[]" "''COM9''" "''day''"]
  by simp

section \<open>REPLPane.keyPressEvent\<close>



definition NoModifier :: int where "NoModifier = 0"
definition ControlModifier :: int where "ControlModifier = 0x04000000"
definition AltModifier :: int where "AltModifier = 0x08000000"











section \<open>ProjectSelector.get_project and Window.get_template\<close>

text \<open>
  The dialog's state: the template items of its list widget, the row of the current
  item (\<open>None\<close> when the list has no current item, as in an empty list), the text of
  the project-name field and the dialog's result code.
\<close>

record project_item =
  item_name :: string
  item_icon :: string
  item_path :: string
  item_default :: string

definition QDialog_Rejected :: int where "QDialog_Rejected = 0"
definition QDialog_Accepted :: int where "QDialog_Accepted = 1"

record project_selector =
  project_list :: "project_item list"
  current_row :: "nat option"
  project_name :: string
  dialog_result :: int

text \<open>\<^verbatim>\<open>self.project_list.currentItem()\<close>, which is \<^verbatim>\<open>None\<close> without a current item.\<close>

definition currentItem :: "project_selector \<Rightarrow> project_item option" where
  "currentItem self =
     (case current_row self of
        None \<Rightarrow> None
      | Some i \<Rightarrow> if i < length (project_list self) then Some (project_list self ! i) else None)"

text \<open>
  \<^verbatim>\<open>get_project\<close>. Reading \<^verbatim>\<open>item.path\<close> from \<^verbatim>\<open>None\<close> is Python's
  \<^verbatim>\<open>AttributeError\<close>. The returned dict is a map from its keys.
\<close>

definition get_project :: "project_selector \<Rightarrow> exn + (string \<rightharpoonup> string)" where
  "get_project self =
     (if dialog_result self = QDialog_Accepted then
        (case currentItem self of
           None \<Rightarrow> Inl AttributeError
         | Some item \<Rightarrow>
             Inr [''path'' \<mapsto> item_path item,
                  ''default'' \<mapsto> item_default item,
                  ''name'' \<mapsto> project_name self])
      else Inl (RuntimeError ''New project rejected.''))"

text \<open>
  \<^verbatim>\<open>ProjectSelector.setup\<close> on a fresh dialog fills the list from the templates and makes row 0
  current (there is none in an empty list). What the user does while
  \<^verbatim>\<open>selector.exec()\<close> runs is the parameter \<open>user\<close>: a row clicked, the name typed,
  and the button that closes the dialog.
\<close>

definition selector_setup :: "project_item list \<Rightarrow> project_selector" where
  "selector_setup templates =
     \<lparr>project_list = templates,
      current_row = (if templates = [] then None else Some 0),
      project_name = [],
      dialog_result = QDialog_Rejected\<rparr>"

record user_input =
  chosen_row :: "nat option"
  typed_name :: string
  pressed_ok :: bool

definition exec :: "user_input \<Rightarrow> project_selector \<Rightarrow> project_selector" where
  "exec user self =
     self\<lparr>current_row :=
            (case chosen_row user of
               None \<Rightarrow> current_row self
             | Some i \<Rightarrow> if i < length (project_list self) then Some i else current_row self),
          project_name := typed_name user,
          dialog_result := (if pressed_ok user then QDialog_Accepted else QDialog_Rejected)\<rparr>"

definition get_template ::
    "user_input \<Rightarrow> string \<Rightarrow> project_item list \<Rightarrow> exn + (string \<rightharpoonup> string) option" where
  "get_template user folder templates =
     (let selector = selector_setup templates;
          selector = exec user selector
      in if dialog_result selector = QDialog_Accepted then
           (case get_project selector of
              Inl e \<Rightarrow> Inl e
            | Inr project \<Rightarrow> Inr (Some project))
         else Inr None)"

lemma get_project_accepted:
  assumes "dialog_result self = QDialog_Accepted" and "currentItem self = Some item"
  shows "\<exists>d. get_project self = Inr d
           \<and> dom d = {''path'', ''default'', ''name''}
           \<and> d ''path'' = Some (item_path item)
           \<and> d ''default'' = Some (item_default item)
           \<and> d ''name'' = Some (project_name self)"
proof -
  let ?d = "[''path'' \<mapsto> item_path item, ''default'' \<mapsto> item_default item,
            ''name'' \<mapsto> project_name self]"
  have "get_project self = Inr ?d"
    using assms by (simp add: get_project_def)
  moreover have "dom ?d = {''path'', ''default'', ''name''}"
    by auto
  moreover have "?d ''path'' = Some (item_path item)"
    and "?d ''default'' = Some (item_default item)"
    and "?d ''name'' = Some (project_name self)"
    by simp_all
  ultimately show ?thesis
    by blast
qed

lemma exec_keeps_current_item:
  assumes "templates \<noteq> []"
  shows "\<exists>item. currentItem (exec user (selector_setup templates)) = Some item \<and> item \<in> set templates"
proof -
  from assms have len: "0 < length templates"
    by simp
  let ?sel = "exec user (selector_setup templates)"
  have "\<exists>i. current_row ?sel = Some i \<and> i < length templates"
    using len by (cases "chosen_row user") (simp_all add: exec_def selector_setup_def)
  then obtain i where i: "current_row ?sel = Some i" "i < length templates"
    by blast
  moreover have "project_list ?sel = templates"
    by (simp add: exec_def selector_setup_def)
  ultimately have "currentItem ?sel = Some (templates ! i)"
    by (simp add: currentItem_def)
  with i show ?thesis
    by simp
qed

text \<open>
  C5, as the code has it. With the result \<^verbatim>\<open>Accepted\<close> and a current template item,
  \<^verbatim>\<open>get_project\<close> returns a dict with exactly the keys \<open>path\<close>, \<open>default\<close> and
  \<open>name\<close>, the first two from that item and the third from the name field; with any
  other result it raises the \<^verbatim>\<open>RuntimeError\<close>. \<^verbatim>\<open>Window.get_template\<close> returns
  \<^verbatim>\<open>None\<close> whenever the dialog is not accepted, and with a template to choose from
  an accepted dialog yields the project.
\<close>

theorem get_project_result:
  "(dialog_result self = QDialog_Accepted \<and> currentItem self = Some item \<longrightarrow>
      (\<exists>d. get_project self = Inr d
         \<and> dom d = {''path'', ''default'', ''name''}
         \<and> d ''path'' = Some (item_path item)
         \<and> d ''default'' = Some (item_default item)
         \<and> d ''name'' = Some (project_name self)))
   \<and> (dialog_result self \<noteq> QDialog_Accepted \<longrightarrow>
        get_project self = Inl (RuntimeError ''New project rejected.''))
   \<and> (dialog_result (exec user (selector_setup templates)) \<noteq> QDialog_Accepted \<longrightarrow>
        get_template user folder templates = Inr None)
   \<and> (dialog_result (exec user (selector_setup templates)) = QDialog_Accepted \<and> templates \<noteq> [] \<longrightarrow>
        (\<exists>d. get_template user folder templates = Inr (Some d)
           \<and> dom d = {''path'', ''default'', ''name''}))"
proof -
  have "dialog_result self \<noteq> QDialog_Accepted \<longrightarrow>
        get_project self = Inl (RuntimeError ''New project rejected.'')"
    by (simp add: get_project_def)
  moreover have "dialog_result (exec user (selector_setup templates)) \<noteq> QDialog_Accepted \<longrightarrow>
        get_template user folder templates = Inr None"
    by (simp add: get_template_def Let_def)
  moreover have "dialog_result (exec user (selector_setup templates)) = QDialog_Accepted \<and> templates \<noteq> [] \<longrightarrow>
        (\<exists>d. get_template user folder templates = Inr (Some d)
           \<and> dom d = {''path'', ''default'', ''name''})"
  proof
    assume a: "dialog_result (exec user (selector_setup templates)) = QDialog_Accepted \<and> templates \<noteq> []"
    then obtain item where "currentItem (exec user (selector_setup templates)) = Some item"
      using exec_keeps_current_item by blast
    with a get_project_accepted [of "exec user (selector_setup templates)" item]
    obtain d where "get_project (exec user (selector_setup templates)) = Inr d"
      and "dom d = {''path'', ''default'', ''name''}"
      by blast
    with a show "\<exists>d. get_template user folder templates = Inr (Some d)
           \<and> dom d = {''path'', ''default'', ''name''}"
      by (simp add: get_template_def Let_def)
  qed
  ultimately show ?thesis
    using get_project_accepted [of self item] by blast
qed

text \<open>
  One template, and a user who types a name and presses OK: the project is returned.
  The same dialog before it is run (its result is \<^verbatim>\<open>Rejected\<close>) raises, and with
  Cancel pressed \<^verbatim>\<open>get_template\<close> returns \<^verbatim>\<open>None\<close>.
\<close>

definition example_template :: project_item where
  "example_template =
     \<lparr>item_name = ''MicroPython'', item_icon = ''microbit'',
      item_path = ''micropython'', item_default = ''from microbit import *''\<rparr>"

definition example_user :: user_input where
  "example_user = \<lparr>chosen_row = None, typed_name = ''blink'', pressed_ok = True\<rparr>"

theorem get_project_result_witness:
  "get_project (exec example_user (selector_setup [example_template])) =
     Inr [''path'' \<mapsto> ''micropython'', ''default'' \<mapsto> ''from microbit import *'',
          ''name'' \<mapsto> ''blink'']
   \<and> get_project (selector_setup [example_template]) =
     Inl (RuntimeError ''New project rejected.'')
   \<and> get_template (example_user\<lparr>pressed_ok := False\<rparr>) ''/home/mu'' [example_template] =
     Inr None
   \<and> get_template example_user ''/home/mu'' [example_template] =
     Inr (Some [''path'' \<mapsto> ''micropython'', ''default'' \<mapsto> ''from microbit import *'',
                ''name'' \<mapsto> ''blink''])"
  using get_project_result
    [of "exec example_user (selector_setup [example_template])" example_template
        "example_user\<lparr>pressed_ok := False\<rparr>" "[example_template]" "''/home/mu''"]
    get_project_result
    [of "selector_setup [example_template]" example_template
        example_user "[example_template]" "''/home/mu''"]
  by (simp add: get_project_def get_template_def exec_def selector_setup_def currentItem_def
      example_user_def example_template_def QDialog_Accepted_def QDialog_Rejected_def)

text \<open>
  C5, as the specification words it, fails when the list has no current item. With
  an empty list of templates and OK pressed the result is \<^verbatim>\<open>Accepted\<close>, and
  \<^verbatim>\<open>get_project\<close> neither returns a record nor raises the \<^verbatim>\<open>RuntimeError\<close>: reading
  \<^verbatim>\<open>item.path\<close> raises an \<^verbatim>\<open>AttributeError\<close>, which \<^verbatim>\<open>get_template\<close> passes on.
\<close>

theorem get_project_no_item_counterexample:
  "dialog_result (exec example_user (selector_setup [])) = QDialog_Accepted
   \<and> get_project (exec example_user (selector_setup [])) = Inl AttributeError
   \<and> get_template example_user ''/home/mu'' [] = Inl AttributeError"
  by (simp add: get_project_def get_template_def exec_def selector_setup_def currentItem_def
      example_user_def QDialog_Accepted_def QDialog_Rejected_def)

section \<open>Window.show_message and Window.show_confirmation\<close>

text \<open>
  A \<^verbatim>\<open>QMessageBox\<close> as the two methods configure it. The box has many attributes;
  which names it has is the parameter \<open>attrs\<close>, the attribute table of the message
  box, where a name stands either for one of the icon constants or for anything else
  (a method, a button constant). \<^verbatim>\<open>setIcon\<close> accepts an icon constant only.
\<close>

datatype icon = NoIcon | Question | Information | Warning | Critical

datatype attr = IconValue icon | OtherAttr

datatype button = Ok | Cancel

record message_box =
  mb_text :: string
  window_title :: string
  informative_text :: "string option"
  mb_icon :: icon
  standard_buttons :: "button set"
  default_button :: "button option"

definition QMessageBox_new :: message_box where
  "QMessageBox_new =
     \<lparr>mb_text = [], window_title = [], informative_text = None, mb_icon = NoIcon,
      standard_buttons = {}, default_button = None\<rparr>"

text \<open>Python's truth value of an optional string: \<^verbatim>\<open>None\<close> and \<^verbatim>\<open>''\<close> are false.\<close>

definition truthy :: "string option \<Rightarrow> bool" where
  "truthy v = (case v of None \<Rightarrow> False | Some s \<Rightarrow> s \<noteq> [])"

definition hasattr :: "(string \<rightharpoonup> attr) \<Rightarrow> string \<Rightarrow> bool" where
  "hasattr obj name = (obj name \<noteq> None)"

definition getattr :: "(string \<rightharpoonup> attr) \<Rightarrow> string \<Rightarrow> exn + attr" where
  "getattr obj name = (case obj name of None \<Rightarrow> Inl AttributeError | Some v \<Rightarrow> Inr v)"

definition setIcon :: "attr \<Rightarrow> message_box \<Rightarrow> exn + message_box" where
  "setIcon v box =
     (case v of IconValue i \<Rightarrow> Inr (box\<lparr>mb_icon := i\<rparr>) | OtherAttr \<Rightarrow> Inl TypeError)"

text \<open>
  The statement \<^verbatim>\<open>if icon and hasattr(message_box, icon): ... else: ...\<close> that both
  methods contain.
\<close>

definition set_icon_or_warning ::
    "(string \<rightharpoonup> attr) \<Rightarrow> string option \<Rightarrow> message_box \<Rightarrow> exn + message_box" where
  "set_icon_or_warning attrs icon box =
     (case icon of
        Some name \<Rightarrow>
          if truthy icon \<and> hasattr attrs name then
            (case getattr attrs name of
               Inl e \<Rightarrow> Inl e
             | Inr v \<Rightarrow> setIcon v box)
          else setIcon (IconValue Warning) box
      | None \<Rightarrow> setIcon (IconValue Warning) box)"

text \<open>
  \<^verbatim>\<open>message_box.exec()\<close> shows the box. A box for which the program chose no buttons
  is shown with an Ok button.
\<close>

definition QMessageBox_exec :: "message_box \<Rightarrow> message_box" where
  "QMessageBox_exec box =
     (if standard_buttons box = {} then box\<lparr>standard_buttons := {Ok}\<rparr> else box)"

text \<open>
  \<^verbatim>\<open>show_message\<close> returns nothing; its result here is the box that was shown by
  \<^verbatim>\<open>exec()\<close>. The calls to the logger leave the box alone.
\<close>

definition show_message ::
    "(string \<rightharpoonup> attr) \<Rightarrow> string \<Rightarrow> string option \<Rightarrow> string option \<Rightarrow> exn + message_box" where
  "show_message attrs message information icon =
     (let box = QMessageBox_new;
          box = box\<lparr>mb_text := message\<rparr>;
          box = box\<lparr>window_title := ''Mu''\<rparr>;
          box = (if truthy information then box\<lparr>informative_text := information\<rparr> else box)
      in case set_icon_or_warning attrs icon box of
           Inl e \<Rightarrow> Inl e
         | Inr box \<Rightarrow> Inr (QMessageBox_exec box))"

text \<open>
  \<^verbatim>\<open>show_confirmation\<close> returns what \<^verbatim>\<open>exec()\<close> returns: the answer the user gives
  to the box shown, the parameter \<open>answer\<close>.
\<close>

definition show_confirmation ::
    "(string \<rightharpoonup> attr) \<Rightarrow> (message_box \<Rightarrow> int) \<Rightarrow> string \<Rightarrow> string option \<Rightarrow> string option
       \<Rightarrow> exn + (message_box \<times> int)" where
  "show_confirmation attrs answer message information icon =
     (let box = QMessageBox_new;
          box = box\<lparr>mb_text := message\<rparr>;
          box = box\<lparr>window_title := ''Mu''\<rparr>;
          box = (if truthy information then box\<lparr>informative_text := information\<rparr> else box)
      in case set_icon_or_warning attrs icon box of
           Inl e \<Rightarrow> Inl e
         | Inr box \<Rightarrow>
             (let box = box\<lparr>standard_buttons := {Cancel} \<union> {Ok}\<rparr>;
                  box = box\<lparr>default_button := Some Cancel\<rparr>;
                  box = QMessageBox_exec box
              in Inr (box, answer box)))"

lemma set_icon_or_warning_default:
  assumes "icon = None \<or> (\<exists>name. icon = Some name \<and> \<not> hasattr attrs name)"
  shows "set_icon_or_warning attrs icon box = Inr (box\<lparr>mb_icon := Warning\<rparr>)"
  using assms by (auto simp: set_icon_or_warning_def setIcon_def)

lemma set_icon_or_warning_cases:
  "(\<exists>i. set_icon_or_warning attrs icon box = Inr (box\<lparr>mb_icon := i\<rparr>))
   \<or> (set_icon_or_warning attrs icon box = Inl TypeError
      \<and> (\<exists>name. icon = Some name \<and> attrs name = Some OtherAttr))"
proof (cases icon)
  case None
  then have "set_icon_or_warning attrs icon box = Inr (box\<lparr>mb_icon := Warning\<rparr>)"
    by (simp add: set_icon_or_warning_def setIcon_def)
  then show ?thesis
    by blast
next
  case (Some name)
  show ?thesis
  proof (cases "truthy icon \<and> hasattr attrs name")
    case False
    with Some have "set_icon_or_warning attrs icon box = Inr (box\<lparr>mb_icon := Warning\<rparr>)"
      by (auto simp: set_icon_or_warning_def setIcon_def)
    then show ?thesis
      by blast
  next
    case True
    then obtain v where v: "attrs name = Some v"
      by (auto simp: hasattr_def)
    show ?thesis
    proof (cases v)
      case (IconValue i)
      with Some True v
      have "set_icon_or_warning attrs icon box = Inr (box\<lparr>mb_icon := i\<rparr>)"
        by (simp add: set_icon_or_warning_def setIcon_def getattr_def)
      then show ?thesis
        by blast
    next
      case OtherAttr
      with Some True v show ?thesis
        by (simp add: set_icon_or_warning_def setIcon_def getattr_def)
    qed
  qed
qed

text \<open>
  C6, as the code has it. When the icon argument is absent, or is not the name of an
  attribute of the message box, both methods show a box whose icon is \<open>Warning\<close>.
  Whenever \<^verbatim>\<open>show_confirmation\<close> shows a box, the box offers exactly the Cancel and Ok
  buttons with Cancel as the default, and the method returns the answer to that box;
  it shows no box only when the icon argument names an attribute that is no icon,
  which \<^verbatim>\<open>setIcon\<close> rejects with a \<^verbatim>\<open>TypeError\<close>.
\<close>

theorem message_box_icon_and_buttons:
  "((icon = None \<or> (\<exists>name. icon = Some name \<and> \<not> hasattr attrs name)) \<longrightarrow>
      (\<exists>box. show_message attrs message information icon = Inr box \<and> mb_icon box = Warning)
    \<and> (\<exists>box. show_confirmation attrs answer message information icon = Inr (box, answer box)
           \<and> mb_icon box = Warning))
   \<and> (case show_confirmation attrs answer message information icon of
        Inr (box, r) \<Rightarrow>
          standard_buttons box = {Cancel, Ok} \<and> default_button box = Some Cancel
          \<and> r = answer box
      | Inl e \<Rightarrow> e = TypeError \<and> (\<exists>name. icon = Some name \<and> attrs name = Some OtherAttr))"
proof -
  define box0 where "box0 =
    (if truthy information
     then QMessageBox_new\<lparr>mb_text := message, window_title := ''Mu'',
            informative_text := information\<rparr>
     else QMessageBox_new\<lparr>mb_text := message, window_title := ''Mu''\<rparr>)"
  define buttons where "buttons = (\<lambda>box :: message_box.
    QMessageBox_exec
      (box\<lparr>standard_buttons := {Cancel} \<union> {Ok}, default_button := Some Cancel\<rparr>))"
  have msg: "show_message attrs message information icon =
      (case set_icon_or_warning attrs icon box0 of
         Inl e \<Rightarrow> Inl e
       | Inr box \<Rightarrow> Inr (QMessageBox_exec box))"
    by (simp add: show_message_def Let_def box0_def)
  have exec_icon: "mb_icon (QMessageBox_exec box) = mb_icon box" for box
    by (simp add: QMessageBox_exec_def)
  have conf: "show_confirmation attrs answer message information icon =
      (case set_icon_or_warning attrs icon box0 of
         Inl e \<Rightarrow> Inl e
       | Inr box \<Rightarrow> Inr (buttons box, answer (buttons box)))"
    by (simp add: show_confirmation_def Let_def box0_def buttons_def split: sum.splits)
  have shown: "standard_buttons (buttons box) = {Cancel, Ok}
      \<and> default_button (buttons box) = Some Cancel
      \<and> mb_icon (buttons box) = mb_icon box" for box
    by (auto simp: buttons_def QMessageBox_exec_def)
  have first: "(icon = None \<or> (\<exists>name. icon = Some name \<and> \<not> hasattr attrs name)) \<longrightarrow>
      (\<exists>box. show_message attrs message information icon = Inr box \<and> mb_icon box = Warning)
    \<and> (\<exists>box. show_confirmation attrs answer message information icon = Inr (box, answer box)
           \<and> mb_icon box = Warning)"
  proof
    assume "icon = None \<or> (\<exists>name. icon = Some name \<and> \<not> hasattr attrs name)"
    then have "set_icon_or_warning attrs icon box0 = Inr (box0\<lparr>mb_icon := Warning\<rparr>)"
      by (rule set_icon_or_warning_default)
    then show "(\<exists>box. show_message attrs message information icon = Inr box \<and> mb_icon box = Warning)
      \<and> (\<exists>box. show_confirmation attrs answer message information icon = Inr (box, answer box)
           \<and> mb_icon box = Warning)"
      by (simp add: msg conf shown exec_icon)
  qed
  have second: "(case show_confirmation attrs answer message information icon of
        Inr (box, r) \<Rightarrow>
          standard_buttons box = {Cancel, Ok} \<and> default_button box = Some Cancel
          \<and> r = answer box
      | Inl e \<Rightarrow> e = TypeError \<and> (\<exists>name. icon = Some name \<and> attrs name = Some OtherAttr))"
    using set_icon_or_warning_cases [of attrs icon box0]
  proof
    assume "\<exists>i. set_icon_or_warning attrs icon box0 = Inr (box0\<lparr>mb_icon := i\<rparr>)"
    then obtain i where "set_icon_or_warning attrs icon box0 = Inr (box0\<lparr>mb_icon := i\<rparr>)"
      by blast
    then show ?thesis
      by (simp add: conf shown)
  next
    assume "set_icon_or_warning attrs icon box0 = Inl TypeError
      \<and> (\<exists>name. icon = Some name \<and> attrs name = Some OtherAttr)"
    then show ?thesis
      by (simp add: conf)
  qed
  from first second show ?thesis
    by blast
qed

text \<open>
  A call with the icon name \<open>Bogus\<close>, which no message box has: the box shown carries
  the Warning icon, and the confirmation offers Cancel and Ok.
\<close>

definition example_attrs :: "string \<rightharpoonup> attr" where
  "example_attrs =
     [''NoIcon'' \<mapsto> IconValue NoIcon, ''Question'' \<mapsto> IconValue Question,
      ''Information'' \<mapsto> IconValue Information, ''Warning'' \<mapsto> IconValue Warning,
      ''Critical'' \<mapsto> IconValue Critical, ''setText'' \<mapsto> OtherAttr]"

theorem message_box_icon_and_buttons_witness:
  "(\<exists>box. show_message example_attrs ''Save first?'' None (Some ''Bogus'') = Inr box
        \<and> mb_text box = ''Save first?'' \<and> window_title box = ''Mu''
        \<and> mb_icon box = Warning)
   \<and> show_confirmation example_attrs (\<lambda>box. 1024) ''Save first?'' None (Some ''Bogus'') =
     Inr (\<lparr>mb_text = ''Save first?'', window_title = ''Mu'', informative_text = None,
           mb_icon = Warning, standard_buttons = {Cancel, Ok},
           default_button = Some Cancel\<rparr>, 1024)"
  using message_box_icon_and_buttons
    [of "Some ''Bogus''" example_attrs "''Save first?''" None "\<lambda>box. 1024"]
  by (simp add: show_message_def show_confirmation_def set_icon_or_warning_def setIcon_def
      hasattr_def truthy_def example_attrs_def QMessageBox_new_def QMessageBox_exec_def)

text \<open>
  C6, as the specification words it, fails: \<^verbatim>\<open>show_confirmation\<close> does not always
  offer the buttons and return the dialog's result. With the icon argument
  \<open>setText\<close>, the name of a method of the message box, the guard passes,
  \<^verbatim>\<open>setIcon\<close> raises a \<^verbatim>\<open>TypeError\<close>, and no box is shown.
\<close>

theorem show_confirmation_non_icon_counterexample:
  "hasattr example_attrs ''setText''
   \<and> show_confirmation example_attrs (\<lambda>box. 1024) ''Save first?'' None (Some ''setText'') =
     Inl TypeError"
  by (simp add: show_confirmation_def set_icon_or_warning_def setIcon_def getattr_def
      hasattr_def truthy_def example_attrs_def QMessageBox_new_def)

section \<open>EditorPane.label\<close>

text \<open>
  \<^verbatim>\<open>os.path.basename\<close> of the POSIX path module: the part of the path behind its last
  slash, \<^verbatim>\<open>p[p.rfind('/') + 1:]\<close>. \<^verbatim>\<open>rfind\<close> is the highest index of the character,
  or -1.
\<close>

fun rfind :: "char \<Rightarrow> string \<Rightarrow> int" where
  "rfind c [] = - 1"
| "rfind c (x # xs) =
     (let r = rfind c xs
      in if 0 \<le> r then r + 1 else if x = c then 0 else - 1)"

definition basename :: "string \<Rightarrow> string" where
  "basename p = (let i = rfind CHR ''/'' p + 1 in drop (nat i) p)"






lemma rfind_bounds: "- 1 \<le> rfind c p \<and> rfind c p < int (length p)"
  by (induction p) (auto simp: Let_def)

lemma rfind_none: "rfind c p = - 1 \<longleftrightarrow> c \<notin> set p"
proof (induction p)
  case Nil
  show ?case by simp
next
  case (Cons x xs)
  have "- 1 \<le> rfind c xs"
    using rfind_bounds [of c xs] by simp
  with Cons show ?case
    by (auto simp: Let_def)
qed

lemma rfind_found:
  "0 \<le> rfind c p \<Longrightarrow> p ! nat (rfind c p) = c \<and> c \<notin> set (drop (nat (rfind c p) + 1) p)"
proof (induction p)
  case Nil
  then show ?case by simp
next
  case (Cons x xs)
  show ?case
  proof (cases "0 \<le> rfind c xs")
    case True
    with Cons.IH have "xs ! nat (rfind c xs) = c"
      and "c \<notin> set (drop (nat (rfind c xs) + 1) xs)"
      by simp_all
    moreover from True have "nat (rfind c xs + 1) = Suc (nat (rfind c xs))"
      by simp
    ultimately show ?thesis
      using True by (simp add: Let_def)
  next
    case False
    with Cons.prems have "x = c" and r: "rfind c (x # xs) = 0"
      by (auto simp: Let_def split: if_splits)
    moreover from False have "rfind c xs = - 1"
      using rfind_bounds [of c xs] by simp
    then have "c \<notin> set xs"
      by (simp add: rfind_none)
    ultimately show ?thesis
      by simp
  qed
qed

text \<open>The basename is the last component: what precedes it in the path is empty or
  ends in a slash, and no slash occurs in it.\<close>

lemma basename_last_component:
  "\<exists>dir. p = dir @ basename p \<and> (dir = [] \<or> last dir = CHR ''/'')
         \<and> CHR ''/'' \<notin> set (basename p)"
proof (cases "0 \<le> rfind CHR ''/'' p")
  case True
  let ?i = "nat (rfind CHR ''/'' p)"
  from True have i: "?i < length p"
    using rfind_bounds [of "CHR ''/''" p] by simp
  from True have b: "basename p = drop (Suc ?i) p"
    by (simp add: basename_def Let_def nat_add_distrib)
  from rfind_found [OF True] have at: "p ! ?i = CHR ''/''"
    and after: "CHR ''/'' \<notin> set (drop (Suc ?i) p)"
    by simp_all
  have "take (Suc ?i) p \<noteq> []"
    using i by auto
  moreover have "last (take (Suc ?i) p) = CHR ''/''"
    using i at by (simp add: take_Suc_conv_app_nth)
  moreover have "p = take (Suc ?i) p @ basename p"
    by (simp add: b)
  ultimately show ?thesis
    using after b by metis
next
  case False
  then have "rfind CHR ''/'' p = - 1"
    using rfind_bounds [of "CHR ''/''" p] by simp
  then have "basename p = p" and "CHR ''/'' \<notin> set p"
    by (simp_all add: basename_def rfind_none [symmetric])
  then show ?thesis
    by simp
qed



section \<open>WebViewPane: zooming\<close>

text \<open>
  The zoom factor is a floating-point number. It is modelled as the real number it
  denotes, and the rounding of the floating-point arithmetic is the parameter \<open>rnd\<close>,
  applied to the literal \<^verbatim>\<open>0.1\<close> and to the sum or difference. \<open>rounding\<close> states
  what the proofs need of it: rounding is monotone and keeps the numbers 0, 0.5 and
  2, which are floating-point numbers. Exact arithmetic is the case where \<open>rnd\<close> is the
  identity.
\<close>

definition rounding :: "(real \<Rightarrow> real) \<Rightarrow> bool" where
  "rounding rnd \<longleftrightarrow> mono rnd \<and> rnd 0 = 0 \<and> rnd (1 / 2) = 1 / 2 \<and> rnd 2 = 2"

record web_view_pane =
  wv_url :: string
  zoom_factor :: real
  resize_events :: nat

definition zoomFactor :: "web_view_pane \<Rightarrow> real" where
  "zoomFactor self = zoom_factor self"

definition setZoomFactor :: "real \<Rightarrow> web_view_pane \<Rightarrow> web_view_pane" where
  "setZoomFactor z self = self\<lparr>zoom_factor := z\<rparr>"

text \<open>\<^verbatim>\<open>execute_js\<close> with the script that dispatches a resize event to the page.\<close>

definition execute_js_resize :: "web_view_pane \<Rightarrow> web_view_pane" where
  "execute_js_resize self = self\<lparr>resize_events := resize_events self + 1\<rparr>"

definition zoomIn :: "(real \<Rightarrow> real) \<Rightarrow> web_view_pane \<Rightarrow> web_view_pane" where
  "zoomIn rnd self =
     (let new_zoom = rnd (zoomFactor self + rnd (1 / 10));
          self = setZoomFactor (if new_zoom < 2 then new_zoom else 2) self
      in execute_js_resize self)"

definition zoomOut :: "(real \<Rightarrow> real) \<Rightarrow> web_view_pane \<Rightarrow> web_view_pane" where
  "zoomOut rnd self =
     (let new_zoom = rnd (zoomFactor self - rnd (1 / 10));
          self = setZoomFactor (if new_zoom > 1 / 2 then new_zoom else 1 / 2) self
      in execute_js_resize self)"

text \<open>A sequence of calls to the two methods, in order.\<close>

datatype zoom_call = ZoomIn | ZoomOut

fun zoom_calls :: "(real \<Rightarrow> real) \<Rightarrow> zoom_call list \<Rightarrow> web_view_pane \<Rightarrow> web_view_pane" where
  "zoom_calls rnd [] self = self"
| "zoom_calls rnd (ZoomIn # cs) self = zoom_calls rnd cs (zoomIn rnd self)"
| "zoom_calls rnd (ZoomOut # cs) self = zoom_calls rnd cs (zoomOut rnd self)"

lemma zoomIn_factor:
  "zoomFactor (zoomIn rnd self) = min (rnd (zoomFactor self + rnd (1 / 10))) 2"
  by (simp add: zoomIn_def zoomFactor_def setZoomFactor_def execute_js_resize_def Let_def
      min_def)

lemma zoomOut_factor:
  "zoomFactor (zoomOut rnd self) = max (rnd (zoomFactor self - rnd (1 / 10))) (1 / 2)"
  by (simp add: zoomOut_def zoomFactor_def setZoomFactor_def execute_js_resize_def Let_def
      max_def)

lemma rounding_step:
  assumes "rounding rnd"
  shows "0 \<le> rnd (1 / 10)"
    and "1 / 2 \<le> x \<Longrightarrow> 1 / 2 \<le> rnd x"
    and "x \<le> 2 \<Longrightarrow> rnd x \<le> 2"
proof -
  from assms have m: "mono rnd" and z: "rnd 0 = 0" and h: "rnd (1 / 2) = 1 / 2"
    and t: "rnd 2 = 2"
    by (simp_all add: rounding_def)
  have "rnd 0 \<le> rnd (1 / 10)"
    using m by (rule monoD) simp
  then show "0 \<le> rnd (1 / 10)"
    using z by simp
  show "1 / 2 \<le> rnd x" if "1 / 2 \<le> x"
    using monoD [OF m that] h by simp
  show "rnd x \<le> 2" if "x \<le> 2"
    using monoD [OF m that] t by simp
qed

lemma zoomIn_bounded:
  assumes "rounding rnd" and "1 / 2 \<le> zoomFactor self" and "zoomFactor self \<le> 2"
  shows "1 / 2 \<le> zoomFactor (zoomIn rnd self) \<and> zoomFactor (zoomIn rnd self) \<le> 2"
proof -
  have "1 / 2 \<le> zoomFactor self + rnd (1 / 10)"
    using rounding_step(1) [OF assms(1)] assms(2) by simp
  then have "1 / 2 \<le> rnd (zoomFactor self + rnd (1 / 10))"
    by (rule rounding_step(2) [OF assms(1)])
  then show ?thesis
    by (simp add: zoomIn_factor)
qed

lemma zoomOut_bounded:
  assumes "rounding rnd" and "1 / 2 \<le> zoomFactor self" and "zoomFactor self \<le> 2"
  shows "1 / 2 \<le> zoomFactor (zoomOut rnd self) \<and> zoomFactor (zoomOut rnd self) \<le> 2"
proof -
  have "zoomFactor self - rnd (1 / 10) \<le> 2"
    using rounding_step(1) [OF assms(1)] assms(3) by simp
  then have "rnd (zoomFactor self - rnd (1 / 10)) \<le> 2"
    by (rule rounding_step(3) [OF assms(1)])
  then show ?thesis
    by (simp add: zoomOut_factor)
qed

lemma zoom_calls_bounded:
  assumes "rounding rnd"
  shows "1 / 2 \<le> zoomFactor self \<Longrightarrow> zoomFactor self \<le> 2 \<Longrightarrow>
         1 / 2 \<le> zoomFactor (zoom_calls rnd cs self) \<and> zoomFactor (zoom_calls rnd cs self) \<le> 2"
proof (induction cs arbitrary: self)
  case Nil
  then show ?case by simp
next
  case (Cons c cs)
  show ?case
  proof (cases c)
    case ZoomIn
    with Cons.IH [of "zoomIn rnd self"] zoomIn_bounded [OF assms Cons.prems]
    show ?thesis by simp
  next
    case ZoomOut
    with Cons.IH [of "zoomOut rnd self"] zoomOut_bounded [OF assms Cons.prems]
    show ?thesis by simp
  qed
qed

text \<open>
  C10. \<^verbatim>\<open>zoomIn\<close> sets the zoom factor to the old factor plus 0.1, capped at 2;
  \<^verbatim>\<open>zoomOut\<close> sets it to the old factor minus 0.1, floored at 0.5. Hence every
  sequence of the two calls that starts from a factor between 0.5 and 2 leaves the
  factor between 0.5 and 2.
\<close>

theorem zoom_factor_bounded:
  assumes "rounding rnd" and "1 / 2 \<le> zoomFactor self" and "zoomFactor self \<le> 2"
  shows "zoomFactor (zoomIn rnd self) = min (rnd (zoomFactor self + rnd (1 / 10))) 2
       \<and> zoomFactor (zoomOut rnd self) = max (rnd (zoomFactor self - rnd (1 / 10))) (1 / 2)
       \<and> 1 / 2 \<le> zoomFactor (zoom_calls rnd cs self)
       \<and> zoomFactor (zoom_calls rnd cs self) \<le> 2"
  using zoom_calls_bounded [OF assms, of cs]
  by (simp add: zoomIn_factor zoomOut_factor)

text \<open>
  In exact arithmetic, from the factor 1.9: zooming in twice stops at 2, and zooming
  out then gives 1.9 again.
\<close>

theorem zoom_factor_bounded_witness:
  "rounding (\<lambda>x. x)
   \<and> zoomFactor (zoomIn (\<lambda>x. x) \<lparr>wv_url = ''http://codewith.mu'', zoom_factor = 19 / 10,
                              resize_events = 0\<rparr>) = 2
   \<and> zoomFactor (zoom_calls (\<lambda>x. x) [ZoomIn, ZoomIn, ZoomOut]
        \<lparr>wv_url = ''http://codewith.mu'', zoom_factor = 19 / 10, resize_events = 0\<rparr>)
      = 19 / 10"
proof -
  have r: "rounding (\<lambda>x. x)"
    by (simp add: rounding_def mono_def)
  show ?thesis
    using r zoom_factor_bounded [OF r, of "\<lparr>wv_url = ''http://codewith.mu'',
        zoom_factor = 19 / 10, resize_events = 0\<rparr>" "[ZoomIn, ZoomIn, ZoomOut]"]
    by (simp add: zoomIn_def zoomOut_def zoomFactor_def setZoomFactor_def
        execute_js_resize_def Let_def)
qed

section \<open>Window.webview_left and Window.webview_right\<close>

text \<open>
  The two web-view attributes of the window. \<^verbatim>\<open>self._webview_left\<close> does not exist
  before \<^verbatim>\<open>add_webview_left\<close> has run (reading it is an \<^verbatim>\<open>AttributeError\<close>), holds
  the pane afterwards, and holds \<^verbatim>\<open>None\<close> once \<^verbatim>\<open>remove_webview_left\<close> has run; the
  same for the right one. The outer \<open>option\<close> is the existence of the attribute, the
  inner one the Python value.
\<close>

record window =
  attr_webview_left :: "web_view_pane option option"
  attr_webview_right :: "web_view_pane option option"

definition read_attr :: "'a option \<Rightarrow> exn + 'a" where
  "read_attr slot = (case slot of None \<Rightarrow> Inl AttributeError | Some v \<Rightarrow> Inr v)"

text \<open>\<^verbatim>\<open>try: return self._webview_left\<close>, \<^verbatim>\<open>except AttributeError: return None\<close>.\<close>

definition webview_left :: "window \<Rightarrow> exn + web_view_pane option" where
  "webview_left self =
     (case read_attr (attr_webview_left self) of
        Inl e \<Rightarrow> if e = AttributeError then Inr None else Inl e
      | Inr v \<Rightarrow> Inr v)"

text \<open>
  \<^verbatim>\<open>try: return self.webview_right\<close>, \<^verbatim>\<open>except AttributeError: return None\<close>: the
  getter reads the property it defines, not the attribute \<^verbatim>\<open>_webview_right\<close>, so it
  calls itself. The result \<open>None\<close> of the partial function is an evaluation that does
  not return.
\<close>

partial_function (option) webview_right :: "window \<Rightarrow> (exn + web_view_pane option) option" where
  "webview_right self =
     Option.bind (webview_right self)
       (\<lambda>r. case r of
              Inl e \<Rightarrow> if e = AttributeError then Some (Inr None) else Some (Inl e)
            | Inr v \<Rightarrow> Some (Inr v))"

text \<open>
  The same getter run by an interpreter that allows \<open>depth\<close> nested calls, as Python
  does (\<^verbatim>\<open>sys.getrecursionlimit()\<close>): the call that exceeds the limit raises
  \<^verbatim>\<open>RecursionError\<close>, which no \<^verbatim>\<open>except AttributeError\<close> clause catches.
\<close>

fun webview_right_depth :: "nat \<Rightarrow> window \<Rightarrow> exn + web_view_pane option" where
  "webview_right_depth 0 self = Inl RecursionError"
| "webview_right_depth (Suc depth) self =
     (case webview_right_depth depth self of
        Inl e \<Rightarrow> if e = AttributeError then Inr None else Inl e
      | Inr v \<Rightarrow> Inr v)"

lemma webview_right_diverges: "webview_right self = None"
proof (cases "webview_right self")
  case None
  then show ?thesis .
next
  case (Some y)
  have False
  proof (rule webview_right.raw_induct [where P = "\<lambda>_ _. False"])
    show "webview_right self = Some y"
      by (fact Some)
  next
    fix f :: "window \<Rightarrow> (exn + web_view_pane option) option" and s r
    assume IH: "\<And>x y. f x = Some y \<Longrightarrow> False"
      and step: "Option.bind (f s)
             (\<lambda>r. case r of
                    Inl e \<Rightarrow> if e = AttributeError then Some (Inr None) else Some (Inl e)
                  | Inr v \<Rightarrow> Some (Inr v)) = Some r"
    have "f s = None"
      using IH by (cases "f s") auto
    with step show False
      by simp
  qed
  then show ?thesis ..
qed

lemma webview_right_depth_raises: "webview_right_depth depth self = Inl RecursionError"
  by (induction depth) simp_all

lemma webview_left_value:
  "webview_left self =
     Inr (case attr_webview_left self of Some (Some pane) \<Rightarrow> Some pane | _ \<Rightarrow> None)"
  by (simp add: webview_left_def read_attr_def split: option.splits)

text \<open>
  C8. Reading \<^verbatim>\<open>webview_right\<close> never returns a value, for any window: the getter
  re-reads itself without end, and under a limit on the depth of calls every read
  ends in a \<^verbatim>\<open>RecursionError\<close>, whatever the limit; in particular it does not return
  \<^verbatim>\<open>None\<close> when no right web view is displayed. The sibling \<^verbatim>\<open>webview_left\<close> returns
  the pane when there is one and \<^verbatim>\<open>None\<close> otherwise.
\<close>

theorem webview_right_never_returns:
  "webview_right self = None
   \<and> webview_right_depth depth self = Inl RecursionError
   \<and> webview_right_depth depth (self\<lparr>attr_webview_right := None\<rparr>) \<noteq> Inr None
   \<and> webview_left self =
       Inr (case attr_webview_left self of Some (Some pane) \<Rightarrow> Some pane | _ \<Rightarrow> None)"
  by (simp add: webview_right_diverges webview_right_depth_raises webview_left_value)

text \<open>
  A window that has shown no web view yet, read with Python's default limit of 1000
  nested calls: the left property is \<^verbatim>\<open>None\<close>, the right one raises.
\<close>

theorem webview_right_never_returns_witness:
  "webview_right \<lparr>attr_webview_left = None, attr_webview_right = None\<rparr> = None
   \<and> webview_right_depth 1000 \<lparr>attr_webview_left = None, attr_webview_right = None\<rparr> =
       Inl RecursionError
   \<and> webview_left \<lparr>attr_webview_left = None, attr_webview_right = None\<rparr> = Inr None"
  using webview_right_never_returns
    [of "\<lparr>attr_webview_left = None, attr_webview_right = None\<rparr>" 1000]
  by simp

end
